theory Spec2Isabelle
  imports Complex_Main "HOL-Library.Sublist" "HOL-Library.AList"
begin

section \<open>File events\<close>

text \<open>
  The four watchdog event types, and a file event as the upload worker reads it:
  \<open>event_type\<close>, \<open>src_path\<close>, \<open>is_directory\<close>, and \<open>dest_path\<close>, an attribute only
  moved events have (\<open>None\<close> on the others).
\<close>

datatype event_type =
  EVENT_TYPE_MOVED | EVENT_TYPE_DELETED | EVENT_TYPE_CREATED | EVENT_TYPE_MODIFIED

record event =
  event_type :: event_type
  src_path :: string
  dest_path :: "string option"
  is_directory :: bool

text \<open>
  An event object in the queue. The worker compares events with \<open>is\<close> and keeps them in
  Python sets, so two events with the same fields are still two objects: \<open>ident\<close> is the
  object's identity, and equality of the records is identity of the objects.
\<close>

record queued_event = event +
  ident :: nat

section \<open>Event coalescing in the upload worker\<close>

text \<open>
  The predicates are the local functions of \<open>upload_worker\<close>.
  \<open>str.startswith\<close> is \<open>prefix\<close> on character lists.
\<close>

definition is_moved_folder :: "queued_event \<Rightarrow> bool" where
  "is_moved_folder x =
     (let is_moved_event = (event_type x = EVENT_TYPE_MOVED)
      in is_moved_event \<and> is_directory x)"

definition is_moved_child :: "queued_event \<Rightarrow> queued_event \<Rightarrow> bool" where
  "is_moved_child x parent_event =
     (let is_moved_event = (event_type x = EVENT_TYPE_MOVED);
          is_child = (prefix (src_path parent_event) (src_path x) \<and> x \<noteq> parent_event)
      in is_moved_event \<and> is_child)"

definition is_deleted_folder :: "queued_event \<Rightarrow> bool" where
  "is_deleted_folder x =
     (let is_deleted_event = (event_type x = EVENT_TYPE_DELETED)
      in is_deleted_event \<and> is_directory x)"

definition is_deleted_child :: "queued_event \<Rightarrow> queued_event \<Rightarrow> bool" where
  "is_deleted_child x parent_event =
     (let is_deleted_event = (event_type x = EVENT_TYPE_DELETED);
          is_child = (prefix (src_path parent_event) (src_path x) \<and> x \<noteq> parent_event)
      in is_deleted_event \<and> is_child)"

definition is_created :: "queued_event \<Rightarrow> bool" where
  "is_created x = (event_type x = EVENT_TYPE_CREATED)"

definition is_modified_duplicate :: "queued_event \<Rightarrow> queued_event \<Rightarrow> bool" where
  "is_modified_duplicate x original =
     (let is_modified_event = (event_type x = EVENT_TYPE_MODIFIED);
          is_duplicate = (src_path x = src_path original)
      in is_modified_event \<and> is_duplicate)"

text \<open>
  \<open>set(xs) - set(ys)\<close>. A Python set has no order of iteration that the program can rely
  on; the model lists the elements once each, in the order of \<open>xs\<close>. The theorems below
  speak of membership only.
\<close>

definition set_difference :: "'a list \<Rightarrow> 'a list \<Rightarrow> 'a list" where
  "set_difference xs ys = filter (\<lambda>x. x \<notin> set ys) (remdups xs)"

text \<open>
  The three passes of \<open>upload_worker\<close> over a drained batch: children of moved folders,
  children of deleted folders, modified events of items created in the same batch.
\<close>

definition combine_moved :: "queued_event list \<Rightarrow> queued_event list" where
  "combine_moved events =
     (let moved_folder_events = filter is_moved_folder events;
          child_move_events =
            concat (map (\<lambda>parent_event. filter (\<lambda>x. is_moved_child x parent_event) events)
                        moved_folder_events)
      in set_difference events child_move_events)"

definition combine_deleted :: "queued_event list \<Rightarrow> queued_event list" where
  "combine_deleted events =
     (let deleted_folder_events = filter is_deleted_folder events;
          child_deleted_events =
            concat (map (\<lambda>parent_event. filter (\<lambda>x. is_deleted_child x parent_event) events)
                        deleted_folder_events)
      in set_difference events child_deleted_events)"

definition combine_created_modified :: "queued_event list \<Rightarrow> queued_event list" where
  "combine_created_modified events =
     (let created_file_events = filter is_created events;
          duplicate_modified_events =
            concat (map (\<lambda>event. filter (\<lambda>x. is_modified_duplicate x event) events)
                        created_file_events)
      in set_difference events duplicate_modified_events)"

definition coalesce :: "queued_event list \<Rightarrow> queued_event list" where
  "coalesce events = combine_created_modified (combine_deleted (combine_moved events))"

section \<open>Exceptions, metadata and the outside world\<close>

text \<open>
  The exceptions the module can see. \<open>CONNECTION_ERRORS\<close> is the tuple of the source: the
  three \<open>requests\<close> classes. \<open>OtherError\<close> stands for any exception of another class that a
  client call raises.
\<close>

datatype exn =
  Timeout | ConnectionError | HTTPError
  | KeyboardInterrupt | SystemExit
  | AttributeError | KeyError | OSError | TypeError | ValueError | ValidationError
  | OtherError string

definition CONNECTION_ERRORS :: "exn set" where
  "CONNECTION_ERRORS = {Timeout, ConnectionError, HTTPError}"

text \<open>
  Dropbox metadata: \<open>FileMetadata path_display rev\<close>, \<open>FolderMetadata path_display\<close>, and
  \<open>DeletedMetadata path_display\<close> for a result that is neither. The write mode of an upload:
  \<open>WriteMode("add")\<close>, or \<open>WriteMode("update", rev)\<close> with a revision.
\<close>

datatype metadata =
  FileMetadata string string
  | FolderMetadata string
  | DeletedMetadata string

datatype write_mode = Add | Update string

text \<open>
  \<open>dropbox.files.WriteMode("update", rev)\<close> validates its value when it is built: a
  revision is a string of at least nine characters, all of them lower-case hexadecimal
  digits. On \<open>None\<close> (the path is not tracked) and on any other string the constructor
  raises \<open>ValidationError\<close>.
\<close>

definition valid_rev :: "string \<Rightarrow> bool" where
  "valid_rev r = (9 \<le> length r \<and> list_all (\<lambda>ch. ch \<in> set ''0123456789abcdef'') r)"

definition WriteMode_update :: "string option \<Rightarrow> exn + write_mode" where
  "WriteMode_update revision =
     (case revision of
        None \<Rightarrow> Inl ValidationError
      | Some r \<Rightarrow> if valid_rev r then Inr (Update r) else Inl ValidationError)"

text \<open>A remote call of the client, as it is logged: the arguments the handler passed.\<close>

datatype call =
  Upload string string bool write_mode
  | Move string string
  | Remove string
  | GetMetadata string
  | MakeDir string
  | ListFolder string bool

record stat =
  st_ctime :: real
  st_mtime :: real

type_synonym rev_index = "(string \<times> string) list"

text \<open>
  What the module takes from outside. The client (\<open>birdbox.client\<close>) is not part of these
  sources, so its path translation, its exclusion policy and its revision store are
  parameters; the answer of the remote to a call is a function of the calls made before
  it, and a call that raises answers \<open>Inl\<close>. \<open>list_folder_resp\<close> is the listing after
  \<open>flatten_results_list\<close>. The file system is read through \<open>os.path\<close>: \<open>getsize\<close> depends
  on the time of the read and is \<open>None\<close> where \<open>os.path.getsize\<close> raises \<open>OSError\<close>.
  \<open>directory_snapshot\<close> is the \<open>_stat_info\<close> dictionary of watchdog's
  \<open>DirectorySnapshot\<close>, root entry included, and \<open>cpu_count\<close> is \<open>os.cpu_count()\<close>.
\<close>

record env =
  dropbox_path :: string
  to_dbx_path :: "string \<Rightarrow> string"
  to_local_path :: "string \<Rightarrow> string"
  is_excluded :: "string \<Rightarrow> bool"
  get_local_rev :: "rev_index \<Rightarrow> string \<Rightarrow> string option"
  set_local_rev :: "string \<Rightarrow> string option \<Rightarrow> rev_index \<Rightarrow> rev_index"
  upload_resp :: "call list \<Rightarrow> string \<Rightarrow> string \<Rightarrow> bool \<Rightarrow> write_mode \<Rightarrow> exn + metadata"
  move_resp :: "call list \<Rightarrow> string \<Rightarrow> string \<Rightarrow> exn + metadata"
  remove_resp :: "call list \<Rightarrow> string \<Rightarrow> exn + metadata option"
  get_metadata_resp :: "call list \<Rightarrow> string \<Rightarrow> exn + metadata option"
  make_dir_resp :: "call list \<Rightarrow> string \<Rightarrow> exn + metadata"
  list_folder_resp :: "call list \<Rightarrow> string \<Rightarrow> bool \<Rightarrow> exn + metadata list"
  isfile :: "string \<Rightarrow> bool"
  isdir :: "string \<Rightarrow> bool"
  getsize :: "string \<Rightarrow> real \<Rightarrow> nat option"
  directory_snapshot :: "string \<Rightarrow> (string \<times> stat) list"
  cpu_count :: "nat option"

datatype signal = connected_signal | disconnected_signal | account_usage_signal

text \<open>
  The state the module reads and writes: the client's \<open>rev_dict\<close> (a dictionary, kept as
  the list of its items), the config entry \<open>("internal", "lastsync")\<close>, the clock that
  \<open>time.time()\<close> reads, the log of remote calls, the \<open>running\<close> event of the monitor, the
  \<open>running\<close> event of the file handler (\<open>fh_running\<close>), \<open>paused_by_user\<close>, the timed queue
  with its \<open>update_time\<close> and the number of puts so far, the names of the threads started,
  the slots connected to the two signals, and the signals sent.
\<close>

record state =
  rev_dict :: rev_index
  lastsync :: real
  now :: real
  calls :: "call list"
  running :: bool
  fh_running :: bool
  paused_by_user :: bool
  local_q :: "queued_event list"
  update_time :: real
  n_put :: nat
  threads :: "string list"
  resume_connected :: bool
  pause_connected :: bool
  signals_sent :: "signal list"

text \<open>
  A call returns a value or raises, and leaves a state either way: what it wrote before
  raising stays written.
\<close>

type_synonym 'a result = "(exn + 'a) \<times> state"

section \<open>Client calls, config and clock\<close>

text \<open>A remote call is logged, and the remote answers from the calls before it.\<close>

definition client_upload ::
  "env \<Rightarrow> string \<Rightarrow> string \<Rightarrow> bool \<Rightarrow> write_mode \<Rightarrow> state \<Rightarrow> metadata result" where
  "client_upload c path dbx_path autorename mode s =
     (upload_resp c (calls s) path dbx_path autorename mode,
      s\<lparr>calls := calls s @ [Upload path dbx_path autorename mode]\<rparr>)"

definition client_move :: "env \<Rightarrow> string \<Rightarrow> string \<Rightarrow> state \<Rightarrow> metadata result" where
  "client_move c dbx_path dbx_path2 s =
     (move_resp c (calls s) dbx_path dbx_path2,
      s\<lparr>calls := calls s @ [Move dbx_path dbx_path2]\<rparr>)"

definition client_remove :: "env \<Rightarrow> string \<Rightarrow> state \<Rightarrow> metadata option result" where
  "client_remove c dbx_path s =
     (remove_resp c (calls s) dbx_path, s\<lparr>calls := calls s @ [Remove dbx_path]\<rparr>)"

definition client_get_metadata :: "env \<Rightarrow> string \<Rightarrow> state \<Rightarrow> metadata option result" where
  "client_get_metadata c dbx_path s =
     (get_metadata_resp c (calls s) dbx_path, s\<lparr>calls := calls s @ [GetMetadata dbx_path]\<rparr>)"

definition client_make_dir :: "env \<Rightarrow> string \<Rightarrow> state \<Rightarrow> metadata result" where
  "client_make_dir c dbx_path s =
     (make_dir_resp c (calls s) dbx_path, s\<lparr>calls := calls s @ [MakeDir dbx_path]\<rparr>)"

definition client_list_folder :: "env \<Rightarrow> string \<Rightarrow> bool \<Rightarrow> state \<Rightarrow> metadata list result" where
  "client_list_folder c dbx_path recursive s =
     (list_folder_resp c (calls s) dbx_path recursive,
      s\<lparr>calls := calls s @ [ListFolder dbx_path recursive]\<rparr>)"

definition client_set_local_rev :: "env \<Rightarrow> string \<Rightarrow> string option \<Rightarrow> state \<Rightarrow> state" where
  "client_set_local_rev c dbx_path revision s =
     s\<lparr>rev_dict := set_local_rev c dbx_path revision (rev_dict s)\<rparr>"

definition client_get_local_rev :: "env \<Rightarrow> string \<Rightarrow> state \<Rightarrow> string option" where
  "client_get_local_rev c dbx_path s = get_local_rev c (rev_dict s) dbx_path"

text \<open>\<open>CONF.set("internal", "lastsync", time.time())\<close> and \<open>time.sleep(d)\<close>.\<close>

definition CONF_set_lastsync :: "state \<Rightarrow> state" where
  "CONF_set_lastsync s = s\<lparr>lastsync := now s\<rparr>"

definition sleep :: "real \<Rightarrow> state \<Rightarrow> state" where
  "sleep d s = s\<lparr>now := now s + d\<rparr>"

text \<open>\<open>os.path.basename\<close>: what follows the last slash.\<close>

definition basename :: "string \<Rightarrow> string" where
  "basename p = rev (takeWhile (\<lambda>ch. ch \<noteq> CHR ''/'') (rev p))"

section \<open>The upload handlers (DropboxUploadSync)\<close>

text \<open>
  The loop that waits until two reads of the file size, \<open>d\<close> seconds apart, agree. It
  ends only if the size settles, so it is a partial function: \<open>None\<close> is the loop that
  never ends.
\<close>

partial_function (option) wait_for_size :: "env \<Rightarrow> real \<Rightarrow> string \<Rightarrow> state \<Rightarrow> unit result option" where
  "wait_for_size c d path s =
     (case getsize c path (now s) of
        None \<Rightarrow> Some (Inl OSError, s)
      | Some size1 \<Rightarrow>
          (case getsize c path (now (sleep d s)) of
             None \<Rightarrow> Some (Inl OSError, sleep d s)
           | Some size2 \<Rightarrow>
               if size1 = size2 then Some (Inr (), sleep d s)
               else wait_for_size c d path (sleep d s)))"

definition on_moved :: "env \<Rightarrow> 'a event_scheme \<Rightarrow> state \<Rightarrow> unit result" where
  "on_moved c event s =
     (let path = src_path event in
      case dest_path event of
        None \<Rightarrow> (Inl AttributeError, s)
      | Some path2 \<Rightarrow>
          let dbx_path = to_dbx_path c path;
              dbx_path2 = to_dbx_path c path2
          in if is_excluded c dbx_path2 then (Inr (), s)
             else if count_list (basename path2) (CHR ''.'') > 1 then (Inr (), s)
             else
               (case client_move c dbx_path dbx_path2 s of
                  (Inl e, s1) \<Rightarrow> (Inl e, s1)
                | (Inr metadata, s1) \<Rightarrow>
                    let s2 = client_set_local_rev c dbx_path None s1 in
                    (case metadata of
                       FileMetadata p r \<Rightarrow>
                         (Inr (), CONF_set_lastsync (client_set_local_rev c dbx_path2 (Some r) s2))
                     | FolderMetadata p \<Rightarrow>
                         let s3 = client_set_local_rev c dbx_path2 (Some ''folder'') s2 in
                         (case client_list_folder c dbx_path2 True s3 of
                            (Inl e, s4) \<Rightarrow> (Inl e, s4)
                          | (Inr results_list, s4) \<Rightarrow>
                              (Inr (),
                               CONF_set_lastsync
                                 (fold (\<lambda>md. case md of
                                          FileMetadata p' r' \<Rightarrow> client_set_local_rev c p' (Some r')
                                        | FolderMetadata p' \<Rightarrow> client_set_local_rev c p' (Some ''folder'')
                                        | DeletedMetadata p' \<Rightarrow> id)
                                    results_list s4)))
                     | DeletedMetadata p \<Rightarrow> (Inr (), CONF_set_lastsync s2))))"

text \<open>
  In \<open>on_created\<close> and \<open>on_modified\<close> the write mode is built before the upload, so a
  revision that \<open>WriteMode\<close> refuses raises with no remote call made. The upload's result
  is read as a file's metadata: \<open>md.rev\<close> raises \<open>AttributeError\<close> on anything else.
\<close>

definition on_created :: "env \<Rightarrow> 'a event_scheme \<Rightarrow> state \<Rightarrow> unit result option" where
  "on_created c event s =
     (let path = src_path event;
          dbx_path = to_dbx_path c path
      in if is_excluded c dbx_path then Some (Inr (), s)
         else if \<not> is_directory event then
           (if isfile c path then
              (case wait_for_size c 0.5 path s of
                 None \<Rightarrow> None
               | Some (Inl e, s1) \<Rightarrow> Some (Inl e, s1)
               | Some (Inr u, s1) \<Rightarrow>
                   let revision = client_get_local_rev c dbx_path s1
                   in (case (case revision of
                               None \<Rightarrow> Inr Add
                             | Some r \<Rightarrow> WriteMode_update (Some r)) of
                         Inl e \<Rightarrow> Some (Inl e, s1)
                       | Inr mode \<Rightarrow>
                           (case client_upload c path dbx_path True mode s1 of
                              (Inl e, s2) \<Rightarrow> Some (Inl e, s2)
                            | (Inr md, s2) \<Rightarrow>
                                (case md of
                                   FileMetadata p r \<Rightarrow>
                                     Some (Inr (),
                                       CONF_set_lastsync (client_set_local_rev c p (Some r) s2))
                                 | FolderMetadata p \<Rightarrow> Some (Inl AttributeError, s2)
                                 | DeletedMetadata p \<Rightarrow> Some (Inl AttributeError, s2)))))
            else Some (Inr (), CONF_set_lastsync s))
         else
           (case client_get_metadata c dbx_path s of
              (Inl e, s1) \<Rightarrow> Some (Inl e, s1)
            | (Inr (Some md), s1) \<Rightarrow>
                Some (Inr (), CONF_set_lastsync (client_set_local_rev c dbx_path (Some ''folder'') s1))
            | (Inr None, s1) \<Rightarrow>
                (case client_make_dir c dbx_path s1 of
                   (Inl e, s2) \<Rightarrow> Some (Inl e, s2)
                 | (Inr md, s2) \<Rightarrow>
                     Some (Inr (),
                           CONF_set_lastsync (client_set_local_rev c dbx_path (Some ''folder'') s2)))))"

definition on_deleted :: "env \<Rightarrow> 'a event_scheme \<Rightarrow> state \<Rightarrow> unit result" where
  "on_deleted c event s =
     (let path = src_path event;
          dbx_path = to_dbx_path c path
      in if is_excluded c dbx_path then (Inr (), s)
         else
           (case client_get_local_rev c dbx_path s of
              None \<Rightarrow> (Inr (), CONF_set_lastsync s)
            | Some revision \<Rightarrow>
                (case client_remove c dbx_path s of
                   (Inl e, s1) \<Rightarrow> (Inl e, s1)
                 | (Inr None, s1) \<Rightarrow> (Inr (), CONF_set_lastsync s1)
                 | (Inr (Some md), s1) \<Rightarrow>
                     (Inr (),
                      CONF_set_lastsync
                        (client_set_local_rev c
                           (case md of FileMetadata p r \<Rightarrow> p | FolderMetadata p \<Rightarrow> p
                            | DeletedMetadata p \<Rightarrow> p)
                           None s1)))))"

definition on_modified :: "env \<Rightarrow> 'a event_scheme \<Rightarrow> state \<Rightarrow> unit result option" where
  "on_modified c event s =
     (let path = src_path event;
          dbx_path = to_dbx_path c path
      in if is_excluded c dbx_path then Some (Inr (), s)
         else if \<not> is_directory event then
           (if isfile c path then
              (case wait_for_size c 0.2 path s of
                 None \<Rightarrow> None
               | Some (Inl e, s1) \<Rightarrow> Some (Inl e, s1)
               | Some (Inr u, s1) \<Rightarrow>
                   let revision = client_get_local_rev c dbx_path s1
                   in (case WriteMode_update revision of
                         Inl e \<Rightarrow> Some (Inl e, s1)
                       | Inr mode \<Rightarrow>
                           (case client_upload c path dbx_path True mode s1 of
                              (Inl e, s2) \<Rightarrow> Some (Inl e, s2)
                            | (Inr md, s2) \<Rightarrow>
                                (case md of
                                   FileMetadata p r \<Rightarrow> Some (Inr (), CONF_set_lastsync s2)
                                 | FolderMetadata p \<Rightarrow> Some (Inl AttributeError, s2)
                                 | DeletedMetadata p \<Rightarrow> Some (Inl AttributeError, s2)))))
            else Some (Inr (), CONF_set_lastsync s))
         else Some (Inr (), CONF_set_lastsync s))"

section \<open>Dispatching a batch (upload_worker)\<close>

definition dispatch_event :: "env \<Rightarrow> 'a event_scheme \<Rightarrow> state \<Rightarrow> unit result option" where
  "dispatch_event c event s =
     (case event_type event of
        EVENT_TYPE_CREATED \<Rightarrow> on_created c event s
      | EVENT_TYPE_MOVED \<Rightarrow> Some (on_moved c event s)
      | EVENT_TYPE_DELETED \<Rightarrow> Some (on_deleted c event s)
      | EVENT_TYPE_MODIFIED \<Rightarrow> on_modified c event s)"

text \<open>
  \<open>executor.map(fn, events)\<close> of a \<open>ThreadPoolExecutor\<close> submits one call of \<open>fn\<close> for every
  event and returns an iterator over the results. A call that raises stores its exception
  in its future; the exception is raised again only when the iterator reaches that result.
  Leaving the \<open>with\<close> block waits for every call to end. The model runs the calls one after
  the other in the order of the list (the pool runs them in parallel, in any interleaving)
  and returns the futures' contents; a call that never ends blocks the \<open>with\<close> block.
\<close>

fun executor_map ::
  "('e \<Rightarrow> state \<Rightarrow> unit result option) \<Rightarrow> 'e list \<Rightarrow> state \<Rightarrow> ((exn + unit) list \<times> state) option" where
  "executor_map fn [] s = Some ([], s)"
| "executor_map fn (x # xs) s =
     (case fn x s of
        None \<Rightarrow> None
      | Some (r, s1) \<Rightarrow>
          (case executor_map fn xs s1 of
             None \<Rightarrow> None
           | Some (rs, s2) \<Rightarrow> Some (r # rs, s2)))"

text \<open>\<open>pause\<close> of the monitor, the slot that \<open>start\<close> connects to the disconnected signal.\<close>

definition pause :: "state \<Rightarrow> state" where
  "pause s = s\<lparr>running := False, fh_running := False\<rparr>"

definition send_disconnected :: "state \<Rightarrow> state" where
  "send_disconnected s =
     (let s1 = s\<lparr>signals_sent := signals_sent s @ [disconnected_signal]\<rparr>
      in if pause_connected s1 then pause s1 else s1)"

text \<open>
  The \<open>with lock: try: ... except ...\<close> block of \<open>upload_worker\<close>. The body sizes the pool
  (\<open>os.cpu_count()*2\<close> raises \<open>TypeError\<close> when the count is unknown, and the executor
  refuses a size of zero), maps \<open>dispatch_event\<close> over the events without reading the
  iterator that \<open>executor.map\<close> returns, and sets \<open>lastsync\<close>. The handlers of the \<open>try\<close>
  re-raise the two interrupts, catch \<open>CONNECTION_ERRORS\<close>, and let anything else pass.
  The lock is held for the whole block; the model has one thread of control and does not
  model taking it.
\<close>

definition process_events :: "env \<Rightarrow> queued_event list \<Rightarrow> state \<Rightarrow> unit result option" where
  "process_events c events s =
     (let body =
            (case cpu_count c of
               None \<Rightarrow> Some (Inl TypeError, s)
             | Some n \<Rightarrow>
                 let num_threads = n * 2
                 in if num_threads \<le> 0 then Some (Inl ValueError, s)
                    else
                      (case executor_map (dispatch_event c) events s of
                         None \<Rightarrow> None
                       | Some (futures, s1) \<Rightarrow> Some (Inr (), CONF_set_lastsync s1)))
      in case body of
           None \<Rightarrow> None
         | Some (Inr u, s1) \<Rightarrow> Some (Inr u, s1)
         | Some (Inl e, s1) \<Rightarrow>
             if e = KeyboardInterrupt \<or> e = SystemExit then Some (Inl e, s1)
             else if e \<in> CONNECTION_ERRORS then
               Some (Inr (), (send_disconnected s1)\<lparr>running := False\<rparr>)
             else Some (Inl e, s1))"

text \<open>
  One round of the worker's loop once the batch is drained from the queue: coalesce, then
  process. Blocking on the queue and waiting until it has been idle for the delay are not
  modelled; \<open>events\<close> is the list the round has collected.
\<close>

definition upload_batch :: "env \<Rightarrow> queued_event list \<Rightarrow> state \<Rightarrow> unit result option" where
  "upload_batch c events s = process_events c (coalesce events) s"

section \<open>Offline reconciliation and the monitor\<close>

text \<open>\<open>str.lower\<close> on the ASCII letters; other characters stay.\<close>

definition lower_char :: "char \<Rightarrow> char" where
  "lower_char ch =
     (case map_of (zip ''ABCDEFGHIJKLMNOPQRSTUVWXYZ'' ''abcdefghijklmnopqrstuvwxyz'') ch of
        None \<Rightarrow> ch
      | Some l \<Rightarrow> l)"

definition lower :: "string \<Rightarrow> string" where
  "lower p = map lower_char p"

definition DirModifiedEvent :: "string \<Rightarrow> event" where
  "DirModifiedEvent path =
     \<lparr>event_type = EVENT_TYPE_MODIFIED, src_path = path, dest_path = None, is_directory = True\<rparr>"

definition FileModifiedEvent :: "string \<Rightarrow> event" where
  "FileModifiedEvent path =
     \<lparr>event_type = EVENT_TYPE_MODIFIED, src_path = path, dest_path = None, is_directory = False\<rparr>"

definition DirCreatedEvent :: "string \<Rightarrow> event" where
  "DirCreatedEvent path =
     \<lparr>event_type = EVENT_TYPE_CREATED, src_path = path, dest_path = None, is_directory = True\<rparr>"

definition FileCreatedEvent :: "string \<Rightarrow> event" where
  "FileCreatedEvent path =
     \<lparr>event_type = EVENT_TYPE_CREATED, src_path = path, dest_path = None, is_directory = False\<rparr>"

definition DirDeletedEvent :: "string \<Rightarrow> event" where
  "DirDeletedEvent path =
     \<lparr>event_type = EVENT_TYPE_DELETED, src_path = path, dest_path = None, is_directory = True\<rparr>"

definition FileDeletedEvent :: "string \<Rightarrow> event" where
  "FileDeletedEvent path =
     \<lparr>event_type = EVENT_TYPE_DELETED, src_path = path, dest_path = None, is_directory = False\<rparr>"

text \<open>
  A dictionary is the list of its items, the first item of a key being the key's entry.
  A loop over the keys that reads each key's value visits \<open>AList.clearjunk\<close> of the list.
  \<open>del d[k]\<close> raises \<open>KeyError\<close> when \<open>k\<close> is no key. The snapshot's \<open>_inode_to_path\<close>, from
  which the root is deleted too, is not read afterwards and has the root's inode as a key
  whenever \<open>_stat_info\<close> has the root.
\<close>

definition get_local_changes :: "env \<Rightarrow> state \<Rightarrow> exn + event list" where
  "get_local_changes c s =
     (let snapshot = directory_snapshot c (dropbox_path c)
      in if map_of snapshot (dropbox_path c) = None then Inl KeyError
         else
           let stat_info = AList.delete (dropbox_path c) snapshot;
               lowercase_snapshot_paths = map (\<lambda>x. lower (fst x)) stat_info;
               last_sync = lastsync s;
               changes1 =
                 concat (map (\<lambda>(path, stats).
                     if max (st_ctime stats) (st_mtime stats) > last_sync then
                       (if map_of (rev_dict s) (lower (to_dbx_path c path)) \<noteq> None then
                          (if isdir c path then [DirModifiedEvent path]
                           else [FileModifiedEvent path])
                        else
                          (if isdir c path then [DirCreatedEvent path]
                           else [FileCreatedEvent path]))
                     else [])
                   (AList.clearjunk stat_info));
               changes2 =
                 concat (map (\<lambda>(path, revision).
                     if lower (to_local_path c path) \<notin> set lowercase_snapshot_paths then
                       (if revision = ''folder'' then [DirDeletedEvent (to_local_path c path)]
                        else [FileDeletedEvent (to_local_path c path)])
                     else [])
                   (AList.clearjunk (rev_dict s)))
           in Inr (changes1 @ changes2))"

text \<open>
  \<open>TimedQueue._put\<close>: append the item and remember the time. The event becomes an object
  of the queue here; its identity is the number of the put.
\<close>

definition local_q_put :: "event \<Rightarrow> state \<Rightarrow> state" where
  "local_q_put event s =
     s\<lparr>local_q := local_q s @
          [\<lparr>event_type = event_type event, src_path = src_path event,
            dest_path = dest_path event, is_directory = is_directory event,
            ident = n_put s\<rparr>],
       update_time := now s,
       n_put := n_put s + 1\<rparr>"

definition upload_local_changes_after_inactive :: "env \<Rightarrow> state \<Rightarrow> unit result" where
  "upload_local_changes_after_inactive c s =
     (case get_local_changes c s of
        Inl e \<Rightarrow> (Inl e, s)
      | Inr events \<Rightarrow> (Inr (), fold local_q_put events s))"

text \<open>
  The monitor after \<open>__init__\<close>: the class attributes (\<open>running\<close> not set,
  \<open>paused_by_user = True\<close>, the handler's empty queue with \<open>update_time = 0\<close>), the
  connection thread started, no slot connected. The revision store, the config entry and
  the clock are what the constructor finds.
\<close>

definition BirdBoxMonitor :: "rev_index \<Rightarrow> real \<Rightarrow> real \<Rightarrow> state" where
  "BirdBoxMonitor rd ls t =
     \<lparr>rev_dict = rd, lastsync = ls, now = t, calls = [],
      running = False, fh_running = False, paused_by_user = True,
      local_q = [], update_time = 0, n_put = 0,
      threads = [''BirdBoxConnectionHelper''],
      resume_connected = False, pause_connected = False, signals_sent = []\<rparr>"

definition start :: "env \<Rightarrow> state \<Rightarrow> unit result" where
  "start c s =
     (if running s \<or> paused_by_user s then (Inr (), s)
      else
        let s1 = s\<lparr>threads := threads s @ [''Observer'', ''BirdBoxDownloader'', ''BirdBoxUploader''],
                   resume_connected := True, pause_connected := True\<rparr>
        in (case upload_local_changes_after_inactive c s1 of
              (Inl e, s2) \<Rightarrow> (Inl e, s2)
            | (Inr u, s2) \<Rightarrow> (Inr (), s2\<lparr>running := True, fh_running := True\<rparr>)))"

definition resume :: "env \<Rightarrow> state \<Rightarrow> unit result" where
  "resume c s =
     (if running s \<or> paused_by_user s then (Inr (), s)
      else
        (case upload_local_changes_after_inactive c s of
           (Inl e, s1) \<Rightarrow> (Inl e, s1)
         | (Inr u, s1) \<Rightarrow> (Inr (), s1\<lparr>running := True, fh_running := True\<rparr>)))"

text \<open>
  \<open>connected_signal.send()\<close> of the connection helper: the signal is sent and its
  receiver, \<open>resume\<close> once \<open>start\<close> has connected it, runs in the sender's thread.
\<close>

definition send_connected :: "env \<Rightarrow> state \<Rightarrow> unit result" where
  "send_connected c s =
     (let s1 = s\<lparr>signals_sent := signals_sent s @ [connected_signal]\<rparr>
      in if resume_connected s1 then resume c s1 else (Inr (), s1))"

section \<open>Example inputs\<close>

text \<open>
  Modelled from the spec: the client's revision store (\<open>get_local_rev\<close> and
  \<open>set_local_rev\<close> of \<open>birdbox.client\<close> are not among the sources). The RevisionIndex maps
  the case-normalized remote path to the revision token, a missing key means the path is
  not tracked, and setting \<open>None\<close> clears the entry. Only the example client below uses
  them.
\<close>

definition spec_get_local_rev :: "rev_index \<Rightarrow> string \<Rightarrow> string option" where
  "spec_get_local_rev rd dbx_path = map_of rd (lower dbx_path)"

definition spec_set_local_rev :: "string \<Rightarrow> string option \<Rightarrow> rev_index \<Rightarrow> rev_index" where
  "spec_set_local_rev dbx_path revision rd =
     (case revision of
        None \<Rightarrow> AList.delete (lower dbx_path) rd
      | Some r \<Rightarrow> AList.update (lower dbx_path) r rd)"

text \<open>
  A client rooted at \<open>/root\<close> that excludes nothing. Its remote times out on the upload of
  \<open>/b.txt\<close> and answers every other upload with revision \<open>rev2\<close>. Every local path is a
  file of 4096 bytes. The snapshot holds the root, a new file, a tracked file changed
  after the last sync and a tracked file that did not change.
\<close>

definition example_client :: env where
  "example_client =
     \<lparr>dropbox_path = ''/root'',
      to_dbx_path = drop 5,
      to_local_path = (\<lambda>dbx_path. ''/root'' @ dbx_path),
      is_excluded = (\<lambda>dbx_path. False),
      get_local_rev = spec_get_local_rev,
      set_local_rev = spec_set_local_rev,
      upload_resp = (\<lambda>log path dbx_path autorename mode.
         if dbx_path = ''/b.txt'' then Inl Timeout else Inr (FileMetadata dbx_path ''rev2'')),
      move_resp = (\<lambda>log dbx_path dbx_path2. Inr (FolderMetadata dbx_path2)),
      remove_resp = (\<lambda>log dbx_path. Inr (Some (DeletedMetadata dbx_path))),
      get_metadata_resp = (\<lambda>log dbx_path. Inr None),
      make_dir_resp = (\<lambda>log dbx_path. Inr (FolderMetadata dbx_path)),
      list_folder_resp = (\<lambda>log dbx_path recursive. Inr []),
      isfile = (\<lambda>path. True),
      isdir = (\<lambda>path. False),
      getsize = (\<lambda>path t. Some 4096),
      directory_snapshot = (\<lambda>path.
         [(''/root'', \<lparr>st_ctime = 10, st_mtime = 10\<rparr>),
          (''/root/new.txt'', \<lparr>st_ctime = 60, st_mtime = 60\<rparr>),
          (''/root/a.txt'', \<lparr>st_ctime = 20, st_mtime = 70\<rparr>),
          (''/root/Old.TXT'', \<lparr>st_ctime = 20, st_mtime = 20\<rparr>)]),
      cpu_count = Some 4\<rparr>"

text \<open>
  A running monitor at time 100 whose last sync was at time 50, tracking two files and a
  folder that is no longer on disk.
\<close>

definition example_state :: state where
  "example_state =
     \<lparr>rev_dict = [(''/a.txt'', ''rev1''), (''/old.txt'', ''rev0''), (''/gone'', ''folder'')],
      lastsync = 50, now = 100, calls = [],
      running = True, fh_running = True, paused_by_user = False,
      local_q = [], update_time = 0, n_put = 0,
      threads = [''BirdBoxConnectionHelper'', ''Observer'', ''BirdBoxDownloader'',
                 ''BirdBoxUploader''],
      resume_connected = True, pause_connected = True, signals_sent = []\<rparr>"

text \<open>
  A state that tracks \<open>/a.txt\<close> with a revision as Dropbox issues them, and a client whose
  remote answers every upload with a new revision.
\<close>

definition tracked_state :: state where
  "tracked_state = example_state\<lparr>rev_dict := [(''/a.txt'', ''0123456789ab'')]\<rparr>"

definition revising_client :: env where
  "revising_client =
     example_client\<lparr>upload_resp :=
       (\<lambda>log path dbx_path autorename mode. Inr (FileMetadata dbx_path ''ba9876543210''))\<rparr>"

text \<open>Events of example batches: a folder move with a nested folder and a file in it.\<close>

definition moved_A :: queued_event where
  "moved_A =
     \<lparr>event_type = EVENT_TYPE_MOVED, src_path = ''/root/A'', dest_path = Some ''/root/B'',
      is_directory = True, ident = 0\<rparr>"

definition moved_A_s :: queued_event where
  "moved_A_s =
     \<lparr>event_type = EVENT_TYPE_MOVED, src_path = ''/root/A/s'', dest_path = Some ''/root/B/s'',
      is_directory = True, ident = 1\<rparr>"

definition moved_A_s_x :: queued_event where
  "moved_A_s_x =
     \<lparr>event_type = EVENT_TYPE_MOVED, src_path = ''/root/A/s/x.txt'',
      dest_path = Some ''/root/B/s/x.txt'', is_directory = False, ident = 2\<rparr>"

text \<open>Created and modified events of files under the root.\<close>

definition created_file :: "string \<Rightarrow> nat \<Rightarrow> queued_event" where
  "created_file path n =
     \<lparr>event_type = EVENT_TYPE_CREATED, src_path = path, dest_path = None,
      is_directory = False, ident = n\<rparr>"

definition modified_file :: "string \<Rightarrow> nat \<Rightarrow> queued_event" where
  "modified_file path n =
     \<lparr>event_type = EVENT_TYPE_MODIFIED, src_path = path, dest_path = None,
      is_directory = False, ident = n\<rparr>"

definition deleted_file :: "string \<Rightarrow> nat \<Rightarrow> queued_event" where
  "deleted_file path n =
     \<lparr>event_type = EVENT_TYPE_DELETED, src_path = path, dest_path = None,
      is_directory = False, ident = n\<rparr>"

section \<open>What offline reconciliation is expected to synthesize\<close>

text \<open>
  The events of the reconciliation walk as the specification words them. For a path of
  the snapshot other than the root whose \<open>max(ctime, mtime)\<close> is later than \<open>lastsync\<close>: a
  modified event when the case-normalized remote path is a key of the RevisionIndex, a
  created event otherwise, for a directory or a file as \<open>isdir\<close> says. For a key of the
  RevisionIndex whose case-normalized local path is not among the case-normalized paths
  of the snapshot: a deleted event, of a directory exactly when the token is \<open>folder\<close>.
\<close>

definition expected_changed_events :: "env \<Rightarrow> state \<Rightarrow> event set" where
  "expected_changed_events c s =
     (\<lambda>p. if lower (to_dbx_path c p) \<in> fst ` set (rev_dict s)
          then (if isdir c p then DirModifiedEvent p else FileModifiedEvent p)
          else (if isdir c p then DirCreatedEvent p else FileCreatedEvent p)) `
     {p. p \<noteq> dropbox_path c \<and>
         (\<exists>st. map_of (directory_snapshot c (dropbox_path c)) p = Some st \<and>
               max (st_ctime st) (st_mtime st) > lastsync s)}"

definition expected_deleted_events :: "env \<Rightarrow> state \<Rightarrow> event set" where
  "expected_deleted_events c s =
     (\<lambda>k. if map_of (rev_dict s) k = Some ''folder''
          then DirDeletedEvent (to_local_path c k) else FileDeletedEvent (to_local_path c k)) `
     {k. k \<in> fst ` set (rev_dict s) \<and>
         lower (to_local_path c k) \<notin>
           lower ` (fst ` set (directory_snapshot c (dropbox_path c)) - {dropbox_path c})}"

declare wait_for_size.simps [code]

section \<open>Properties of coalescing\<close>

lemma set_set_difference: "set (set_difference xs ys) = set xs - set ys"
  by (auto simp: set_difference_def)

lemma set_combine_moved:
  "set (combine_moved events) =
     {x \<in> set events. \<not> (\<exists>p \<in> set events. is_moved_folder p \<and> is_moved_child x p)}"
  by (auto simp: combine_moved_def set_set_difference)

lemma set_combine_deleted:
  "set (combine_deleted events) =
     {x \<in> set events. \<not> (\<exists>p \<in> set events. is_deleted_folder p \<and> is_deleted_child x p)}"
  by (auto simp: combine_deleted_def set_set_difference)

lemma set_combine_created_modified:
  "set (combine_created_modified events) =
     {x \<in> set events. \<not> (\<exists>c \<in> set events. is_created c \<and> is_modified_duplicate x c)}"
  by (auto simp: combine_created_modified_def set_set_difference)

lemma combine_moved_subset: "set (combine_moved B) \<subseteq> set B"
  by (auto simp: set_combine_moved)

lemma set_coalesce:
  "set (coalesce B) =
     {x \<in> set B.
        \<not> (\<exists>p \<in> set B. is_moved_folder p \<and> is_moved_child x p) \<and>
        \<not> (\<exists>p \<in> set B. is_deleted_folder p \<and> is_deleted_child x p) \<and>
        \<not> (\<exists>c \<in> set B. is_created c \<and> is_modified_duplicate x c)}"
  unfolding coalesce_def set_combine_created_modified set_combine_deleted set_combine_moved
  by (auto simp: is_moved_child_def is_deleted_child_def is_deleted_folder_def
      is_created_def is_modified_duplicate_def is_moved_folder_def)

lemmas example_event_defs =
  moved_A_def moved_A_s_def moved_A_s_x_def created_file_def modified_file_def deleted_file_def

text \<open>
  Claim C5. When a batch holds a created event with source path \<open>p\<close>, no modified event
  with source path \<open>p\<close> is left in the coalesced batch; and a modified event of the batch
  whose source path is the source path of no created event of the batch is still in the
  coalesced batch.
\<close>

theorem created_modified_fusion:
  "(cr \<in> set B \<and> event_type cr = EVENT_TYPE_CREATED \<longrightarrow>
      \<not> (\<exists>m \<in> set (coalesce B).
            event_type m = EVENT_TYPE_MODIFIED \<and> src_path m = src_path cr)) \<and>
   (m \<in> set B \<and> event_type m = EVENT_TYPE_MODIFIED \<and>
      (\<forall>cr' \<in> set B. event_type cr' = EVENT_TYPE_CREATED \<longrightarrow> src_path cr' \<noteq> src_path m) \<longrightarrow>
      m \<in> set (coalesce B))"
  unfolding set_coalesce
  by (auto simp: is_moved_child_def is_deleted_child_def is_created_def is_modified_duplicate_def)

theorem created_modified_fusion_witness:
  "created_file ''/root/doc.md'' 0 \<in>
     set [created_file ''/root/doc.md'' 0, modified_file ''/root/doc.md'' 1,
          modified_file ''/root/other.md'' 2] \<and>
   event_type (created_file ''/root/doc.md'' 0) = EVENT_TYPE_CREATED \<and>
   modified_file ''/root/doc.md'' 1 \<notin>
     set (coalesce [created_file ''/root/doc.md'' 0, modified_file ''/root/doc.md'' 1,
                    modified_file ''/root/other.md'' 2]) \<and>
   modified_file ''/root/other.md'' 2 \<in>
     set (coalesce [created_file ''/root/doc.md'' 0, modified_file ''/root/doc.md'' 1,
                    modified_file ''/root/other.md'' 2])"
  using created_modified_fusion
    [of "created_file ''/root/doc.md'' 0"
        "[created_file ''/root/doc.md'' 0, modified_file ''/root/doc.md'' 1,
          modified_file ''/root/other.md'' 2]"
        "modified_file ''/root/other.md'' 2"]
  by (auto simp: example_event_defs)




section \<open>Properties of the handlers and of a batch\<close>

text \<open>The waiting loop changes the clock and nothing else.\<close>

lemma wait_for_size_clock':
  assumes "wait_for_size c d path s = Some y"
  shows "\<exists>t. snd y = s\<lparr>now := t\<rparr>"
  using assms
proof (induction rule: wait_for_size.raw_induct [rotated 1, consumes 1])
  case (1 wait c d path s y)
  show ?case
  proof (cases "getsize c path (now s)")
    case None
    with 1(2) have "y = (Inl OSError, s)" by auto
    then have "snd y = s\<lparr>now := now s\<rparr>" by simp
    then show ?thesis by blast
  next
    case (Some size1)
    note s1 = this
    show ?thesis
    proof (cases "getsize c path (now (sleep d s))")
      case None
      with 1(2) s1 have "snd y = sleep d s" by auto
      then show ?thesis unfolding sleep_def by blast
    next
      case (Some size2)
      show ?thesis
      proof (cases "size1 = size2")
        case True
        with 1(2) s1 Some have "snd y = sleep d s" by auto
        then show ?thesis unfolding sleep_def by blast
      next
        case False
        with 1(2) s1 Some have w: "wait c d path (sleep d s) = Some y" by auto
        from 1(1) [OF w] obtain t where "snd y = (sleep d s)\<lparr>now := t\<rparr>" by blast
        then have "snd y = s\<lparr>now := t\<rparr>" by (simp add: sleep_def)
        then show ?thesis by blast
      qed
    qed
  qed
qed


lemma wait_for_size_lastsync:
  "wait_for_size c d path s = Some (r, s') \<Longrightarrow> lastsync s' = lastsync s"
  using wait_for_size_clock' [of c d path s "(r, s')"] by auto

lemmas client_defs =
  client_upload_def client_move_def client_remove_def client_get_metadata_def
  client_make_dir_def client_list_folder_def client_set_local_rev_def
  client_get_local_rev_def CONF_set_lastsync_def

lemma on_moved_raise: "on_moved c event s = (Inl e, s') \<Longrightarrow> lastsync s' = lastsync s"
  by (auto simp: on_moved_def Let_def client_defs
      split: option.splits if_splits sum.splits metadata.splits prod.splits)

lemma on_moved_return:
  "on_moved c event s = (Inr u, s') \<Longrightarrow> s' = s \<or> lastsync s' = now s'"
  by (auto simp: on_moved_def Let_def client_defs
      split: option.splits if_splits sum.splits metadata.splits prod.splits)


lemma on_deleted_raise: "on_deleted c event s = (Inl e, s') \<Longrightarrow> lastsync s' = lastsync s"
  by (auto simp: on_deleted_def Let_def client_defs
      split: option.splits if_splits sum.splits prod.splits)

lemma on_deleted_return:
  "on_deleted c event s = (Inr u, s') \<Longrightarrow> s' = s \<or> lastsync s' = now s'"
  by (auto simp: on_deleted_def Let_def client_defs
      split: option.splits if_splits sum.splits prod.splits)

lemma on_created_raise:
  "on_created c event s = Some (Inl e, s') \<Longrightarrow> lastsync s' = lastsync s"
  by (auto simp: on_created_def Let_def client_defs dest!: wait_for_size_lastsync
      split: option.splits if_splits sum.splits metadata.splits prod.splits)

lemma on_created_return:
  "on_created c event s = Some (Inr u, s') \<Longrightarrow> s' = s \<or> lastsync s' = now s'"
  by (auto simp: on_created_def Let_def client_defs
      split: option.splits if_splits sum.splits metadata.splits prod.splits)

lemma on_modified_raise:
  "on_modified c event s = Some (Inl e, s') \<Longrightarrow> lastsync s' = lastsync s"
  by (auto simp: on_modified_def Let_def client_defs dest!: wait_for_size_lastsync
      split: option.splits if_splits sum.splits metadata.splits prod.splits)

lemma on_modified_return:
  "on_modified c event s = Some (Inr u, s') \<Longrightarrow> s' = s \<or> lastsync s' = now s'"
  by (auto simp: on_modified_def Let_def client_defs
      split: option.splits if_splits sum.splits metadata.splits prod.splits)

lemmas eval_defs =
  dispatch_event_def on_created_def on_modified_def on_deleted_def on_moved_def
  example_event_defs example_client_def example_state_def
  wait_for_size.simps sleep_def client_defs spec_get_local_rev_def spec_set_local_rev_def
  lower_def lower_char_def Let_def

lemmas batch_defs =
  upload_batch_def process_events_def coalesce_def combine_moved_def
  combine_deleted_def combine_created_modified_def set_difference_def is_moved_folder_def
  is_deleted_folder_def is_created_def is_modified_duplicate_def is_moved_child_def
  is_deleted_child_def

text \<open>
  Claim C1, as the code has it. The dispatch of an event that raises, a connection error
  or any other, leaves \<open>lastsync\<close> as that dispatch found it. \<open>lastsync\<close> is not written
  once for the batch only: a dispatch that returns has either dropped its event and
  changed nothing, or has set \<open>lastsync\<close> to the time of its return.
\<close>

theorem raising_dispatch_keeps_lastsync:
  "(dispatch_event c event s = Some (Inl e, s') \<longrightarrow> lastsync s' = lastsync s) \<and>
   (dispatch_event c event s = Some (Inr u, s') \<longrightarrow> s' = s \<or> lastsync s' = now s')"
  by (auto simp: dispatch_event_def split: event_type.splits
      dest: on_moved_raise on_deleted_raise on_created_raise on_modified_raise
        on_moved_return on_deleted_return on_created_return on_modified_return)

theorem raising_dispatch_keeps_lastsync_witness:
  "dispatch_event example_client (created_file ''/root/b.txt'' 1) example_state =
     Some (Inl Timeout,
           example_state\<lparr>now := 100.5, calls := [Upload ''/root/b.txt'' ''/b.txt'' True Add]\<rparr>) \<and>
   lastsync (example_state\<lparr>now := 100.5, calls := [Upload ''/root/b.txt'' ''/b.txt'' True Add]\<rparr>) =
     lastsync example_state \<and>
   dispatch_event example_client (created_file ''/root/c.txt'' 0) example_state =
     Some (Inr (),
           example_state\<lparr>
             rev_dict := [(''/a.txt'', ''rev1''), (''/old.txt'', ''rev0''), (''/gone'', ''folder''),
                          (''/c.txt'', ''rev2'')],
             now := 100.5, calls := [Upload ''/root/c.txt'' ''/c.txt'' True Add],
             lastsync := 100.5\<rparr>) \<and>
   lastsync (example_state\<lparr>
             rev_dict := [(''/a.txt'', ''rev1''), (''/old.txt'', ''rev0''), (''/gone'', ''folder''),
                          (''/c.txt'', ''rev2'')],
             now := 100.5, calls := [Upload ''/root/c.txt'' ''/c.txt'' True Add],
             lastsync := 100.5\<rparr>) = 100.5"
  using raising_dispatch_keeps_lastsync
    [of example_client "created_file ''/root/b.txt'' 1" example_state Timeout
        "example_state\<lparr>now := 100.5, calls := [Upload ''/root/b.txt'' ''/b.txt'' True Add]\<rparr>"]
    raising_dispatch_keeps_lastsync
    [of example_client "created_file ''/root/c.txt'' 0" example_state _
        "example_state\<lparr>
             rev_dict := [(''/a.txt'', ''rev1''), (''/old.txt'', ''rev0''), (''/gone'', ''folder''),
                          (''/c.txt'', ''rev2'')],
             now := 100.5, calls := [Upload ''/root/c.txt'' ''/c.txt'' True Add],
             lastsync := 100.5\<rparr>" "()"]
  by (simp add: eval_defs)

text \<open>
  Claim C1 as stated fails: in a batch of two created files the upload of \<open>/b.txt\<close> times
  out, so one dispatch raises a connection error, and \<open>lastsync\<close>, 50 before the batch, is
  100.5 when the dispatches have ended (the handler of \<open>/c.txt\<close> wrote it) and 101 after
  the batch.
\<close>

theorem partial_failure_advances_lastsync:
  "executor_map (dispatch_event example_client)
     (coalesce [created_file ''/root/c.txt'' 0, created_file ''/root/b.txt'' 1]) example_state =
     Some ([Inr (), Inl Timeout],
       example_state\<lparr>
         rev_dict := [(''/a.txt'', ''rev1''), (''/old.txt'', ''rev0''), (''/gone'', ''folder''),
                      (''/c.txt'', ''rev2'')],
         now := 101,
         calls := [Upload ''/root/c.txt'' ''/c.txt'' True Add,
                   Upload ''/root/b.txt'' ''/b.txt'' True Add],
         lastsync := 100.5\<rparr>) \<and>
   Timeout \<in> CONNECTION_ERRORS \<and>
   upload_batch example_client
     [created_file ''/root/c.txt'' 0, created_file ''/root/b.txt'' 1] example_state =
     Some (Inr (),
       example_state\<lparr>
         rev_dict := [(''/a.txt'', ''rev1''), (''/old.txt'', ''rev0''), (''/gone'', ''folder''),
                      (''/c.txt'', ''rev2'')],
         now := 101,
         calls := [Upload ''/root/c.txt'' ''/c.txt'' True Add,
                   Upload ''/root/b.txt'' ''/b.txt'' True Add],
         lastsync := 101\<rparr>) \<and>
   lastsync example_state = 50"
  by (simp add: eval_defs batch_defs CONNECTION_ERRORS_def)

text \<open>
  Claim C2 fails on the code. In a batch of one created file whose upload times out,
  the dispatch raises a connection error, and the worker's round returns as after a
  success: no signal is sent, \<open>running\<close> stays set and \<open>lastsync\<close> is advanced. The same
  holds when the upload raises an error of another class.
\<close>

theorem connection_error_in_dispatch_is_swallowed:
  "dispatch_event example_client (created_file ''/root/b.txt'' 0) example_state =
     Some (Inl Timeout,
           example_state\<lparr>now := 100.5, calls := [Upload ''/root/b.txt'' ''/b.txt'' True Add]\<rparr>) \<and>
   Timeout \<in> CONNECTION_ERRORS \<and>
   upload_batch example_client [created_file ''/root/b.txt'' 0] example_state =
     Some (Inr (),
           example_state\<lparr>now := 100.5, calls := [Upload ''/root/b.txt'' ''/b.txt'' True Add],
                         lastsync := 100.5\<rparr>) \<and>
   map_option (signals_sent \<circ> snd)
     (upload_batch example_client [created_file ''/root/b.txt'' 0] example_state) = Some [] \<and>
   map_option (running \<circ> snd)
     (upload_batch example_client [created_file ''/root/b.txt'' 0] example_state) = Some True \<and>
   upload_batch
     (example_client\<lparr>upload_resp :=
        (\<lambda>log path dbx_path autorename mode. Inl (OtherError ''quota''))\<rparr>)
     [created_file ''/root/b.txt'' 0] example_state =
     Some (Inr (),
           example_state\<lparr>now := 100.5, calls := [Upload ''/root/b.txt'' ''/b.txt'' True Add],
                         lastsync := 100.5\<rparr>)"
  by (simp add: eval_defs batch_defs CONNECTION_ERRORS_def)

lemma on_modified_rev_dict:
  assumes "on_modified c event s = Some (r, s')"
  shows "rev_dict s' = rev_dict s"
proof -
  have w: "rev_dict s1 = rev_dict s" if "wait_for_size c d path s = Some (r1, s1)" for d path r1 s1
    using wait_for_size_clock' [OF that] by auto
  from assms show ?thesis
    by (auto simp: on_modified_def Let_def client_defs dest!: w
        split: option.splits if_splits sum.splits metadata.splits prod.splits)
qed

text \<open>
  Claim C3 fails on the code. The modified file \<open>/root/a.txt\<close> is tracked with revision
  \<open>0123456789ab\<close>, which \<open>WriteMode\<close> accepts; the handler uploads it with mode
  \<open>Update(0123456789ab)\<close> and \<open>autorename\<close> set, the upload returns the path \<open>/a.txt\<close> with
  revision \<open>ba9876543210\<close>, and the revision store still answers \<open>0123456789ab\<close> for
  \<open>/a.txt\<close> afterwards: \<open>on_modified\<close> never writes it. \<open>on_created\<close>, on the same file and
  state, stores the returned revision.
\<close>

theorem on_modified_keeps_old_revision:
  "WriteMode_update (client_get_local_rev revising_client ''/a.txt'' tracked_state) =
     Inr (Update ''0123456789ab'') \<and>
   on_modified revising_client (modified_file ''/root/a.txt'' 0) tracked_state =
     Some (Inr (),
       tracked_state\<lparr>now := 100.2,
         calls := [Upload ''/root/a.txt'' ''/a.txt'' True (Update ''0123456789ab'')],
         lastsync := 100.2\<rparr>) \<and>
   upload_resp revising_client [] ''/root/a.txt'' ''/a.txt'' True (Update ''0123456789ab'') =
     Inr (FileMetadata ''/a.txt'' ''ba9876543210'') \<and>
   client_get_local_rev revising_client ''/a.txt''
     (tracked_state\<lparr>now := 100.2,
         calls := [Upload ''/root/a.txt'' ''/a.txt'' True (Update ''0123456789ab'')],
         lastsync := 100.2\<rparr>) = Some ''0123456789ab'' \<and>
   on_created revising_client (created_file ''/root/a.txt'' 0) tracked_state =
     Some (Inr (),
       tracked_state\<lparr>rev_dict := [(''/a.txt'', ''ba9876543210'')], now := 100.5,
         calls := [Upload ''/root/a.txt'' ''/a.txt'' True (Update ''0123456789ab'')],
         lastsync := 100.5\<rparr>)"
  by (simp add: eval_defs tracked_state_def revising_client_def WriteMode_update_def
      valid_rev_def)

text \<open>
  Claim C10. For a deleted event whose remote path is not excluded and for which the
  revision store has no revision, the handler makes no remote call, leaves the
  RevisionIndex as it is and sets \<open>lastsync\<close> to the current time.
\<close>

theorem on_deleted_untracked:
  assumes "event_type event = EVENT_TYPE_DELETED"
    and "\<not> is_excluded c (to_dbx_path c (src_path event))"
    and "client_get_local_rev c (to_dbx_path c (src_path event)) s = None"
  shows "dispatch_event c event s = Some (on_deleted c event s) \<and>
         on_deleted c event s = (Inr (), s\<lparr>lastsync := now s\<rparr>) \<and>
         calls (snd (on_deleted c event s)) = calls s \<and>
         rev_dict (snd (on_deleted c event s)) = rev_dict s \<and>
         lastsync (snd (on_deleted c event s)) = now s"
  using assms by (simp add: dispatch_event_def on_deleted_def Let_def CONF_set_lastsync_def)

theorem on_deleted_untracked_witness:
  "event_type (deleted_file ''/root/zzz.txt'' 0) = EVENT_TYPE_DELETED \<and>
   \<not> is_excluded example_client (to_dbx_path example_client (src_path (deleted_file ''/root/zzz.txt'' 0))) \<and>
   client_get_local_rev example_client
     (to_dbx_path example_client (src_path (deleted_file ''/root/zzz.txt'' 0))) example_state = None \<and>
   on_deleted example_client (deleted_file ''/root/zzz.txt'' 0) example_state =
     (Inr (), example_state\<lparr>lastsync := 100\<rparr>)"
  using on_deleted_untracked [of "deleted_file ''/root/zzz.txt'' 0" example_client example_state]
  by (simp add: eval_defs)

section \<open>Properties of offline reconciliation\<close>

lemma set_clearjunk: "set (AList.clearjunk al) = {(k, v). map_of al k = Some v}"
  using graph_map_of [of al] by (auto simp: Map.graph_def)

lemma keys_delete: "fst ` set (AList.delete k al) = fst ` set al - {k}"
proof -
  have "set (map fst (AList.delete k al)) = set (removeAll k (map fst al))"
    by (simp only: delete_keys)
  then show ?thesis by simp
qed

lemma map_of_delete_Some:
  "map_of (AList.delete k al) p = Some v \<longleftrightarrow> p \<noteq> k \<and> map_of al p = Some v"
  by (simp add: delete_conv')

lemma key_iff: "k \<in> fst ` set al \<longleftrightarrow> map_of al k \<noteq> None"
  by (simp add: map_of_eq_None_iff)

lemma set_concat_map_if:
  "set (concat (map (\<lambda>x. if P x then [h x] else []) xs)) = h ` {x \<in> set xs. P x}"
  by (induction xs) auto

lemma changes2_shape:
  "(\<lambda>(path, revision).
          if A path then (if revision = F then [a path] else [b path]) else [])
   = (\<lambda>x. if A (fst x) then [if snd x = F then a (fst x) else b (fst x)] else [])"
  by (auto simp: fun_eq_iff)

lemma changes1_shape:
  "(\<lambda>(path, stats).
          if A stats then (if B path then (if D path then [a path] else [b path])
             else (if D path then [a' path] else [b' path])) else [])
   = (\<lambda>x. if A (snd x) then [if B (fst x) then (if D (fst x) then a (fst x) else b (fst x))
             else (if D (fst x) then a' (fst x) else b' (fst x))] else [])"
  by (auto simp: fun_eq_iff)

lemma deleted_generic:
  "set (concat (map (\<lambda>(k, v). if A k then (if v = F then [a k] else [b k]) else [])
                    (AList.clearjunk rd)))
   = (\<lambda>k. if map_of rd k = Some F then a k else b k) ` {k. k \<in> fst ` set rd \<and> A k}"
  (is "?L = ?g ` ?K")
proof -
  let ?h = "\<lambda>x. if snd x = F then a (fst x) else b (fst x)"
  have L: "?L = ?h ` {x \<in> set (AList.clearjunk rd). A (fst x)}"
    by (simp only: changes2_shape set_concat_map_if)
  show ?thesis
  proof (intro set_eqI iffI)
    fix e assume "e \<in> ?L"
    then obtain k v where kv: "(k, v) \<in> set (AList.clearjunk rd)" "A k" and e: "e = ?h (k, v)"
      unfolding L by auto
    from kv(1) have m: "map_of rd k = Some v" by (simp add: set_clearjunk)
    then have "k \<in> fst ` set rd" by (simp add: key_iff)
    moreover from m e have "e = ?g k" by simp
    ultimately show "e \<in> ?g ` ?K" using kv(2) by blast
  next
    fix e assume "e \<in> ?g ` ?K"
    then obtain k where k: "k \<in> fst ` set rd" "A k" and e: "e = ?g k" by blast
    from k(1) obtain v where m: "map_of rd k = Some v" by (auto simp: key_iff)
    then have "(k, v) \<in> set (AList.clearjunk rd)" by (simp add: set_clearjunk)
    moreover from m e have "e = ?h (k, v)" by simp
    ultimately have "e \<in> ?h ` {x \<in> set (AList.clearjunk rd). A (fst x)}"
      using k(2) by (intro image_eqI [where x = "(k, v)"]) simp_all
    then show "e \<in> ?L" by (simp only: L)
  qed
qed

lemma changed_generic:
  "set (concat (map (\<lambda>(p, st). if P st then
            (if B p then (if D p then [a p] else [b p])
             else (if D p then [a' p] else [b' p])) else [])
          (AList.clearjunk (AList.delete rt snap))))
   = (\<lambda>p. if B p then (if D p then a p else b p) else (if D p then a' p else b' p)) `
       {p. p \<noteq> rt \<and> (\<exists>st. map_of snap p = Some st \<and> P st)}"
  (is "?L = ?g ` ?K")
proof -
  let ?h = "\<lambda>x. ?g (fst x)"
  have L: "?L = ?h ` {x \<in> set (AList.clearjunk (AList.delete rt snap)). P (snd x)}"
    by (simp only: changes1_shape set_concat_map_if)
  have S: "set (AList.clearjunk (AList.delete rt snap)) =
       {(p, st). p \<noteq> rt \<and> map_of snap p = Some st}"
    by (simp add: set_clearjunk map_of_delete_Some)
  show ?thesis
  proof (intro set_eqI iffI)
    fix e assume "e \<in> ?L"
    then obtain p st where "p \<noteq> rt" "map_of snap p = Some st" "P st" "e = ?g p"
      unfolding L S by auto
    then show "e \<in> ?g ` ?K" by blast
  next
    fix e assume "e \<in> ?g ` ?K"
    then obtain p st where p: "p \<noteq> rt" "map_of snap p = Some st" "P st" and e: "e = ?g p"
      by blast
    then have "(p, st) \<in> {x \<in> set (AList.clearjunk (AList.delete rt snap)). P (snd x)}"
      unfolding S by simp
    then have "?h (p, st) \<in> ?h ` {x \<in> set (AList.clearjunk (AList.delete rt snap)). P (snd x)}"
      by (rule imageI)
    then show "e \<in> ?L" using e by (simp only: L fst_conv)
  qed
qed


lemma set_changes1:
  "set (concat (map (\<lambda>(path, stats).
          if max (st_ctime stats) (st_mtime stats) > lastsync s then
            (if map_of (rev_dict s) (lower (to_dbx_path c path)) \<noteq> None then
               (if isdir c path then [DirModifiedEvent path] else [FileModifiedEvent path])
             else (if isdir c path then [DirCreatedEvent path] else [FileCreatedEvent path]))
          else [])
        (AList.clearjunk (AList.delete (dropbox_path c) (directory_snapshot c (dropbox_path c))))))
   = expected_changed_events c s"
  unfolding expected_changed_events_def key_iff
  by (rule changed_generic)

lemma set_changes2:
  "set (concat (map (\<lambda>(path, revision).
          if lower (to_local_path c path) \<notin>
               set (map (\<lambda>x. lower (fst x))
                 (AList.delete (dropbox_path c) (directory_snapshot c (dropbox_path c)))) then
            (if revision = ''folder'' then [DirDeletedEvent (to_local_path c path)]
             else [FileDeletedEvent (to_local_path c path)])
          else [])
        (AList.clearjunk (rev_dict s))))
   = expected_deleted_events c s"
proof -
  have low: "lower ` (fst ` set (directory_snapshot c (dropbox_path c)) - {dropbox_path c}) =
     set (map (\<lambda>x. lower (fst x))
       (AList.delete (dropbox_path c) (directory_snapshot c (dropbox_path c))))"
    by (simp add: keys_delete [symmetric] image_image)
  show ?thesis
    unfolding expected_deleted_events_def low
    by (rule deleted_generic)
qed



lemma get_local_changes_raises_iff:
  "(\<exists>e. get_local_changes c s = Inl e) \<longleftrightarrow>
     dropbox_path c \<notin> fst ` set (directory_snapshot c (dropbox_path c))"
  by (simp add: get_local_changes_def Let_def key_iff)

lemma set_get_local_changes:
  assumes "get_local_changes c s = Inr changes"
  shows "set changes = expected_changed_events c s \<union> expected_deleted_events c s"
proof -
  have root: "map_of (directory_snapshot c (dropbox_path c)) (dropbox_path c) \<noteq> None"
    using assms by (auto simp: get_local_changes_def Let_def split: if_splits)
  have "\<exists>changes'. get_local_changes c s = Inr changes' \<and>
          set changes' = expected_changed_events c s \<union> expected_deleted_events c s"
    apply (simp only: get_local_changes_def Let_def root if_False)
    apply (rule exI, rule conjI, rule refl)
    apply (simp only: set_append set_changes1 set_changes2)
    done
  with assms show ?thesis by auto
qed

lemmas new_event_defs =
  DirModifiedEvent_def FileModifiedEvent_def DirCreatedEvent_def FileCreatedEvent_def
  DirDeletedEvent_def FileDeletedEvent_def



lemma example_get_local_changes:
  "get_local_changes example_client example_state =
     Inr [FileCreatedEvent ''/root/new.txt'', FileModifiedEvent ''/root/a.txt'',
          DirDeletedEvent ''/root/gone'']"
  by (simp add: get_local_changes_def example_client_def example_state_def lower_def
      lower_char_def Let_def)

text \<open>
  Claim C6. When the snapshot holds its root, as a directory snapshot does, the
  reconciliation walk returns, and its events are exactly the expected ones: a modified
  or created event for every path of the snapshot but the root that changed after
  \<open>lastsync\<close>, and a deleted event for every key of the RevisionIndex whose local path is
  missing from the snapshot, both compared case-normalized; nothing else.
\<close>

theorem get_local_changes_events:
  assumes "dropbox_path c \<in> fst ` set (directory_snapshot c (dropbox_path c))"
  shows "\<exists>changes. get_local_changes c s = Inr changes \<and>
           set changes = expected_changed_events c s \<union> expected_deleted_events c s"
proof -
  from assms have "\<not> (\<exists>e. get_local_changes c s = Inl e)"
    by (simp only: get_local_changes_raises_iff not_not)
  then obtain changes where "get_local_changes c s = Inr changes"
    by (cases "get_local_changes c s") auto
  with set_get_local_changes [OF this] show ?thesis by blast
qed

theorem get_local_changes_events_witness:
  "dropbox_path example_client \<in>
     fst ` set (directory_snapshot example_client (dropbox_path example_client)) \<and>
   get_local_changes example_client example_state =
     Inr [FileCreatedEvent ''/root/new.txt'', FileModifiedEvent ''/root/a.txt'',
          DirDeletedEvent ''/root/gone''] \<and>
   expected_changed_events example_client example_state \<union>
     expected_deleted_events example_client example_state =
     {FileCreatedEvent ''/root/new.txt'', FileModifiedEvent ''/root/a.txt'',
      DirDeletedEvent ''/root/gone''}"
proof -
  have pre: "dropbox_path example_client \<in>
     fst ` set (directory_snapshot example_client (dropbox_path example_client))"
    by (simp add: example_client_def)
  from get_local_changes_events [OF pre, of example_state] example_get_local_changes
  have "expected_changed_events example_client example_state \<union>
     expected_deleted_events example_client example_state =
     set [FileCreatedEvent ''/root/new.txt'', FileModifiedEvent ''/root/a.txt'',
          DirDeletedEvent ''/root/gone'']"
    by auto
  with pre example_get_local_changes show ?thesis by simp
qed

lemma expected_changed_eventsD:
  assumes "e \<in> expected_changed_events c s"
  shows "(event_type e = EVENT_TYPE_MODIFIED \<or> event_type e = EVENT_TYPE_CREATED) \<and>
         src_path e \<in> fst ` set (directory_snapshot c (dropbox_path c)) - {dropbox_path c}"
proof -
  from assms obtain p st where
    e: "e = (if lower (to_dbx_path c p) \<in> fst ` set (rev_dict s)
          then (if isdir c p then DirModifiedEvent p else FileModifiedEvent p)
          else (if isdir c p then DirCreatedEvent p else FileCreatedEvent p))"
    and p: "p \<noteq> dropbox_path c" "map_of (directory_snapshot c (dropbox_path c)) p = Some st"
    unfolding expected_changed_events_def by blast
  from p(2) have "p \<in> fst ` set (directory_snapshot c (dropbox_path c))"
    by (simp add: key_iff)
  moreover have "src_path e = p"
    by (simp add: e new_event_defs)
  moreover have "event_type e = EVENT_TYPE_MODIFIED \<or> event_type e = EVENT_TYPE_CREATED"
    by (simp add: e new_event_defs)
  ultimately show ?thesis using p(1) by simp
qed

lemma expected_deleted_eventsD:
  assumes "e \<in> expected_deleted_events c s"
  shows "event_type e = EVENT_TYPE_DELETED \<and>
         (\<exists>k. k \<in> fst ` set (rev_dict s) \<and> src_path e = to_local_path c k \<and>
              lower (to_local_path c k) \<notin>
                lower ` (fst ` set (directory_snapshot c (dropbox_path c)) - {dropbox_path c}))"
proof -
  from assms obtain k where
    e: "e = (if map_of (rev_dict s) k = Some ''folder''
          then DirDeletedEvent (to_local_path c k) else FileDeletedEvent (to_local_path c k))"
    and k: "k \<in> fst ` set (rev_dict s)"
      "lower (to_local_path c k) \<notin>
         lower ` (fst ` set (directory_snapshot c (dropbox_path c)) - {dropbox_path c})"
    unfolding expected_deleted_events_def by blast
  have "src_path e = to_local_path c k"
    by (simp add: e new_event_defs)
  moreover have "event_type e = EVENT_TYPE_DELETED"
    by (simp add: e new_event_defs)
  ultimately show ?thesis using k by blast
qed

text \<open>
  Claim C7. The client's path translation is a parameter here, and the claim needs it to
  tell paths apart: on the local paths of the snapshot and of the RevisionIndex, two paths
  whose remote paths agree up to case agree up to case themselves. Then no created event
  and deleted event of one reconciliation walk map to the same case-normalized remote
  path.
\<close>

theorem no_created_and_deleted_for_same_path:
  assumes ret: "get_local_changes c s = Inr changes"
    and inj: "\<forall>l \<in> (fst ` set (directory_snapshot c (dropbox_path c)) - {dropbox_path c}) \<union>
                    to_local_path c ` fst ` set (rev_dict s).
              \<forall>l' \<in> (fst ` set (directory_snapshot c (dropbox_path c)) - {dropbox_path c}) \<union>
                    to_local_path c ` fst ` set (rev_dict s).
                lower (to_dbx_path c l) = lower (to_dbx_path c l') \<longrightarrow> lower l = lower l'"
    and cr: "cr \<in> set changes" "event_type cr = EVENT_TYPE_CREATED"
    and de: "de \<in> set changes" "event_type de = EVENT_TYPE_DELETED"
  shows "lower (to_dbx_path c (src_path cr)) \<noteq> lower (to_dbx_path c (src_path de))"
proof
  let ?paths = "fst ` set (directory_snapshot c (dropbox_path c)) - {dropbox_path c}"
  assume same: "lower (to_dbx_path c (src_path cr)) = lower (to_dbx_path c (src_path de))"
  note set = set_get_local_changes [OF ret]
  have "cr \<notin> expected_deleted_events c s"
    using expected_deleted_eventsD [of cr c s] cr(2) by auto
  with cr(1) set have "cr \<in> expected_changed_events c s" by blast
  then have pin: "src_path cr \<in> ?paths"
    by (rule expected_changed_eventsD [THEN conjunct2])
  have "de \<notin> expected_changed_events c s"
    using expected_changed_eventsD [of de c s] de(2) by auto
  with de(1) set have "de \<in> expected_deleted_events c s" by blast
  then obtain k where k: "src_path de = to_local_path c k" "k \<in> fst ` set (rev_dict s)"
      "lower (to_local_path c k) \<notin> lower ` ?paths"
    using expected_deleted_eventsD [of de c s] by blast
  from k(2) have kin: "to_local_path c k \<in> to_local_path c ` fst ` set (rev_dict s)"
    by (rule imageI)
  have "lower (src_path cr) = lower (to_local_path c k)"
  proof -
    have a: "src_path cr \<in> ?paths \<union> to_local_path c ` fst ` set (rev_dict s)"
      using pin by (rule UnI1)
    have b: "to_local_path c k \<in> ?paths \<union> to_local_path c ` fst ` set (rev_dict s)"
      using kin by (rule UnI2)
    from inj [rule_format, OF a b] same k(1) show ?thesis by simp
  qed
  with pin k(3) show False by (metis imageI)
qed


theorem no_created_and_deleted_for_same_path_witness:
  "get_local_changes example_client example_state =
     Inr [FileCreatedEvent ''/root/new.txt'', FileModifiedEvent ''/root/a.txt'',
          DirDeletedEvent ''/root/gone''] \<and>
   event_type (FileCreatedEvent ''/root/new.txt'') = EVENT_TYPE_CREATED \<and>
   event_type (DirDeletedEvent ''/root/gone'') = EVENT_TYPE_DELETED \<and>
   lower (to_dbx_path example_client (src_path (FileCreatedEvent ''/root/new.txt''))) \<noteq>
   lower (to_dbx_path example_client (src_path (DirDeletedEvent ''/root/gone'')))"
proof -
  let ?L = "(fst ` set (directory_snapshot example_client (dropbox_path example_client)) -
               {dropbox_path example_client}) \<union>
            to_local_path example_client ` fst ` set (rev_dict example_state)"
  have under_root: "\<forall>l \<in> ?L. take 5 l = ''/root''"
    by (simp add: example_client_def example_state_def)
  have split: "lower l = lower (take 5 l) @ lower (drop 5 l)" for l
    unfolding lower_def by (simp only: map_append [symmetric] append_take_drop_id)
  have inj: "\<forall>l \<in> ?L. \<forall>l' \<in> ?L.
      lower (to_dbx_path example_client l) = lower (to_dbx_path example_client l') \<longrightarrow>
      lower l = lower l'"
  proof (intro ballI impI)
    fix l l'
    assume l: "l \<in> ?L" and l': "l' \<in> ?L"
      and "lower (to_dbx_path example_client l) = lower (to_dbx_path example_client l')"
    then have "lower (drop 5 l) = lower (drop 5 l')"
      by (simp add: example_client_def)
    moreover from under_root l l' have "take 5 l = take 5 l'"
      by simp
    ultimately show "lower l = lower l'"
      using split [of l] split [of l'] by simp
  qed
  have ty: "event_type (FileCreatedEvent ''/root/new.txt'') = EVENT_TYPE_CREATED"
    "event_type (DirDeletedEvent ''/root/gone'') = EVENT_TYPE_DELETED"
    by (simp_all add: new_event_defs)
  from no_created_and_deleted_for_same_path
    [OF example_get_local_changes inj, of "FileCreatedEvent ''/root/new.txt''"
       "DirDeletedEvent ''/root/gone''"] ty
  have "lower (to_dbx_path example_client (src_path (FileCreatedEvent ''/root/new.txt''))) \<noteq>
    lower (to_dbx_path example_client (src_path (DirDeletedEvent ''/root/gone'')))"
    by simp
  with example_get_local_changes ty show ?thesis by simp
qed

section \<open>Properties of the monitor\<close>

text \<open>
  Claim C8. While \<open>paused_by_user\<close> holds, \<open>resume\<close> changes nothing, and a connected
  signal only gets recorded as sent: \<open>running\<close>, the file handler's flag and the queue stay
  as they are, so no reconciliation is run. \<open>resume\<close> takes effect only once
  \<open>paused_by_user\<close> is false.
\<close>

theorem resume_paused_by_user:
  assumes "paused_by_user s"
  shows "resume c s = (Inr (), s) \<and>
         send_connected c s = (Inr (), s\<lparr>signals_sent := signals_sent s @ [connected_signal]\<rparr>) \<and>
         running (snd (send_connected c s)) = running s \<and>
         fh_running (snd (send_connected c s)) = fh_running s \<and>
         local_q (snd (send_connected c s)) = local_q s"
  using assms by (simp add: resume_def send_connected_def Let_def)

theorem resume_paused_by_user_witness:
  "paused_by_user (example_state\<lparr>running := False, fh_running := False, paused_by_user := True\<rparr>) \<and>
   send_connected example_client
     (example_state\<lparr>running := False, fh_running := False, paused_by_user := True\<rparr>) =
     (Inr (), example_state\<lparr>running := False, fh_running := False, paused_by_user := True,
                signals_sent := [connected_signal]\<rparr>)"
  using resume_paused_by_user
    [of "example_state\<lparr>running := False, fh_running := False, paused_by_user := True\<rparr>"
        example_client]
  by (simp add: example_state_def)

lemma paused_by_user_fold_put:
  "paused_by_user (fold local_q_put events s) = paused_by_user s"
  by (induction events arbitrary: s) (simp_all add: local_q_put_def)

lemma paused_by_user_reconcile:
  "paused_by_user (snd (upload_local_changes_after_inactive c s)) = paused_by_user s"
  by (simp add: upload_local_changes_after_inactive_def paused_by_user_fold_put split: sum.splits)

text \<open>
  Claim C9. A new monitor has \<open>paused_by_user\<close> set, so \<open>start\<close> on it returns with the
  state as it was: only the connection thread started, the queue empty, \<open>running\<close> and the
  file handler's flag not set. In any state \<open>start\<close> does nothing while \<open>paused_by_user\<close>
  holds, and neither \<open>start\<close>, \<open>resume\<close> nor \<open>pause\<close> changes \<open>paused_by_user\<close>: it is set to
  false from outside only.
\<close>

theorem start_on_new_monitor:
  "paused_by_user (BirdBoxMonitor rd ls t) \<and>
   start c (BirdBoxMonitor rd ls t) = (Inr (), BirdBoxMonitor rd ls t) \<and>
   threads (snd (start c (BirdBoxMonitor rd ls t))) = [''BirdBoxConnectionHelper''] \<and>
   local_q (snd (start c (BirdBoxMonitor rd ls t))) = [] \<and>
   \<not> running (snd (start c (BirdBoxMonitor rd ls t))) \<and>
   \<not> fh_running (snd (start c (BirdBoxMonitor rd ls t))) \<and>
   (paused_by_user s \<longrightarrow> start c s = (Inr (), s)) \<and>
   (snd (start c s) \<noteq> s \<longrightarrow> \<not> paused_by_user s) \<and>
   paused_by_user (snd (start c s)) = paused_by_user s \<and>
   paused_by_user (snd (resume c s)) = paused_by_user s \<and>
   paused_by_user (pause s) = paused_by_user s"
proof -
  have new: "paused_by_user (BirdBoxMonitor rd ls t)"
    by (simp add: BirdBoxMonitor_def)
  have noop: "start c s' = (Inr (), s')" if "paused_by_user s'" for s'
    using that by (simp add: start_def)
  have keep_start: "paused_by_user (snd (start c s)) = paused_by_user s"
    using paused_by_user_reconcile
      [of c "s\<lparr>threads := threads s @ [''Observer'', ''BirdBoxDownloader'', ''BirdBoxUploader''],
               resume_connected := True, pause_connected := True\<rparr>"]
    by (auto simp: start_def Let_def split: prod.splits sum.splits)
  have keep_resume: "paused_by_user (snd (resume c s)) = paused_by_user s"
    using paused_by_user_reconcile [of c s]
    by (auto simp: resume_def split: prod.splits sum.splits)
  have keep_pause: "paused_by_user (pause s) = paused_by_user s"
    by (simp add: pause_def)
  from noop [OF new] have st: "start c (BirdBoxMonitor rd ls t) = (Inr (), BirdBoxMonitor rd ls t)" .
  have fields: "threads (BirdBoxMonitor rd ls t) = [''BirdBoxConnectionHelper'']"
    "local_q (BirdBoxMonitor rd ls t) = []"
    "\<not> running (BirdBoxMonitor rd ls t)" "\<not> fh_running (BirdBoxMonitor rd ls t)"
    by (simp_all add: BirdBoxMonitor_def)
  show ?thesis
    using new st fields noop [of s] keep_start keep_resume keep_pause
    by (simp only: snd_conv) auto
qed

theorem start_on_new_monitor_witness:
  "start example_client (BirdBoxMonitor [] 0 0) = (Inr (), BirdBoxMonitor [] 0 0) \<and>
   paused_by_user (BirdBoxMonitor [] 0 0) \<and>
   \<not> paused_by_user (example_state\<lparr>running := False\<rparr>) \<and>
   n_put (snd (start example_client (example_state\<lparr>running := False\<rparr>))) = 3 \<and>
   snd (start example_client (example_state\<lparr>running := False\<rparr>)) \<noteq>
     example_state\<lparr>running := False\<rparr>"
proof -
  have n: "n_put (snd (start example_client (example_state\<lparr>running := False\<rparr>))) = 3"
    by (simp add: start_def upload_local_changes_after_inactive_def get_local_changes_def
        local_q_put_def example_client_def example_state_def lower_def lower_char_def Let_def)
  have "n_put (example_state\<lparr>running := False\<rparr>) = 0"
    by (simp add: example_state_def)
  with n have ne: "snd (start example_client (example_state\<lparr>running := False\<rparr>)) \<noteq>
     example_state\<lparr>running := False\<rparr>"
    by (metis zero_neq_numeral)
  from start_on_new_monitor [of "[]" 0 0 example_client "BirdBoxMonitor [] 0 0"]
    start_on_new_monitor [of "[]" 0 0 example_client "example_state\<lparr>running := False\<rparr>"] ne n
  show ?thesis by simp
qed

end
